theory Spec2Isabelle
  imports Complex_Main "HOL-Library.AList"
begin

chapter \<open>The model\<close>

section \<open>Python exceptions\<close>

text \<open>
  The exceptions the worker can meet. \<open>KeyboardInterrupt\<close> and \<open>SystemExit\<close> derive from
  \<open>BaseException\<close> only, so a clause \<open>except Exception\<close> does not catch them;
  \<open>UnboundLocalError\<close> is a subclass of \<open>NameError\<close>.
\<close>

datatype py_exc =
    KeyError | TypeError | AttributeError | IndexError | ValueError | OverflowError
  | NameError | UnboundLocalError | RequestException | OtherException string
  | KeyboardInterrupt | SystemExit

fun is_Exception :: "py_exc \<Rightarrow> bool" where
  "is_Exception KeyboardInterrupt = False"
| "is_Exception SystemExit = False"
| "is_Exception _ = True"

section \<open>The sub-model orchestrator: \<open>pull_requests_model\<close>\<close>

text \<open>
  A sub-model is a method that works on the store and may raise; what it wrote before
  raising stays written. The orchestrator's state is the store together with the list of
  sub-models entered so far.
\<close>

datatype sub_model = Comments | Events | Reviews | NestedData

type_synonym ('db, 'pr) model_fn = "'pr list \<Rightarrow> 'db \<Rightarrow> 'db \<times> py_exc option"

record ('db, 'pr) worker =
  get_pk_source_prs :: "'db \<Rightarrow> 'db \<times> (py_exc + 'pr list)"
  pull_request_comments_model :: "('db, 'pr) model_fn"
  pull_request_events_model :: "('db, 'pr) model_fn"
  pull_request_reviews_model :: "('db, 'pr) model_fn"
  pull_request_nested_data_model :: "('db, 'pr) model_fn"

type_synonym 'db orch = "'db \<times> sub_model list"

definition call_model :: "sub_model \<Rightarrow> ('db \<Rightarrow> 'db \<times> py_exc option) \<Rightarrow> 'db orch \<Rightarrow> 'db orch \<times> py_exc option" where
  "call_model name m s = (case s of (db, tr) \<Rightarrow>
     (case m db of (db', r) \<Rightarrow> ((db', tr @ [name]), r)))"

text \<open>
  \<open>try: body  except Exception: pass  finally: fin\<close>. An exception of \<open>body\<close> that the
  clause does not catch stays pending while \<open>fin\<close> runs and is raised again afterwards,
  unless \<open>fin\<close> raises one itself.
\<close>

definition try_except_finally ::
  "('s \<Rightarrow> 's \<times> py_exc option) \<Rightarrow> ('s \<Rightarrow> 's \<times> py_exc option) \<Rightarrow> 's \<Rightarrow> 's \<times> py_exc option" where
  "try_except_finally body fin s =
     (case body s of (s1, r1) \<Rightarrow>
        (let pending = (case r1 of None \<Rightarrow> None
                        | Some e \<Rightarrow> if is_Exception e then None else Some e)
         in case fin s1 of (s2, r2) \<Rightarrow>
              (s2, case r2 of Some e \<Rightarrow> Some e | None \<Rightarrow> pending)))"

definition no_finally :: "'s \<Rightarrow> 's \<times> py_exc option" where
  "no_finally s = (s, None)"

text \<open>
  The result is the final state, whether \<open>register_task_completion\<close> was reached, and the
  exception that leaves the method, if any.
\<close>

definition pull_requests_model ::
  "('db, 'pr) worker \<Rightarrow> 'db \<Rightarrow> 'db orch \<times> bool \<times> py_exc option" where
  "pull_requests_model w db =
     (case get_pk_source_prs w db of
        (db0, Inl e) \<Rightarrow>
          (if is_Exception e then ((db0, []), True, None) else ((db0, []), False, Some e))
      | (db0, Inr pk_source_prs) \<Rightarrow>
          (if pk_source_prs \<noteq> [] then
             (case
                try_except_finally (call_model Comments (pull_request_comments_model w pk_source_prs))
               (try_except_finally (call_model Events (pull_request_events_model w pk_source_prs))
               (try_except_finally (call_model Reviews (pull_request_reviews_model w pk_source_prs))
               (try_except_finally (call_model NestedData (pull_request_nested_data_model w pk_source_prs))
                  no_finally)))
                (db0, [])
              of (s, None) \<Rightarrow> (s, True, None)
               | (s, Some e) \<Rightarrow> (s, False, Some e))
           else ((db0, []), True, None)))"

section \<open>The four nested steps of \<open>pull_request_nested_data_model\<close>\<close>

text \<open>
  For one pull request the method runs \<open>while pr_nested_loop < 5\<close> around a \<open>try\<close> whose
  branches are chosen by the counter: 1 labels, 2 reviewers, 3 assignees, 4 head/base meta.
  Each branch increments the counter before it works; \<open>except Exception\<close> logs and
  continues the loop. A counter outside 1..4 below 5 would match no branch and loop
  forever, which is the value \<open>None\<close> here.
\<close>

type_synonym 's nested = "'s \<times> int list"

definition run_step :: "(int \<Rightarrow> 's \<Rightarrow> 's \<times> py_exc option) \<Rightarrow> int \<Rightarrow> 's nested \<Rightarrow> 's nested \<times> py_exc option" where
  "run_step step n st = (case st of (s, tr) \<Rightarrow>
     (case step n s of (s', r) \<Rightarrow> ((s', tr @ [n]), r)))"

partial_function (option) nested_loop ::
  "(int \<Rightarrow> 's \<Rightarrow> 's \<times> py_exc option) \<Rightarrow> int \<Rightarrow> 's nested \<Rightarrow> ('s nested \<times> py_exc option) option" where
  "nested_loop step pr_nested_loop st =
     (if pr_nested_loop < 5 then
        (if pr_nested_loop = 1 \<or> pr_nested_loop = 2 \<or> pr_nested_loop = 3 \<or> pr_nested_loop = 4 then
           (case run_step step pr_nested_loop st of
              (st', None) \<Rightarrow> nested_loop step (pr_nested_loop + 1) st'
            | (st', Some e) \<Rightarrow>
                if is_Exception e then nested_loop step (pr_nested_loop + 1) st'
                else Some (st', Some e))
         else nested_loop step pr_nested_loop st)
      else Some (st, None))"

definition pr_nested_steps ::
  "(int \<Rightarrow> 's \<Rightarrow> 's \<times> py_exc option) \<Rightarrow> 's \<Rightarrow> ('s nested \<times> py_exc option) option" where
  "pr_nested_steps step s = nested_loop step 1 (s, [])"

text \<open>
  A run used to exercise the orchestrator: the store is the list of tables written so far,
  the reviews sub-model raises after writing nothing, and the reviewers step of the nested
  model raises.
\<close>

definition demo_worker :: "(string list, nat) worker" where
  "demo_worker =
     \<lparr> get_pk_source_prs = (\<lambda>db. (db, Inr [1, 2])),
       pull_request_comments_model = (\<lambda>pk db. (db @ [''message''], None)),
       pull_request_events_model = (\<lambda>pk db. (db @ [''pull_request_events''], None)),
       pull_request_reviews_model = (\<lambda>pk db. (db, Some (OtherException ''reviews fetch failed''))),
       pull_request_nested_data_model = (\<lambda>pk db. (db @ [''pull_request_labels''], None)) \<rparr>"

definition demo_step :: "int \<Rightarrow> string list \<Rightarrow> string list \<times> py_exc option" where
  "demo_step n db =
     (if n = 1 then (db @ [''pull_request_labels''], None)
      else if n = 2 then (db, Some KeyError)
      else if n = 3 then (db @ [''pull_request_assignees''], None)
      else (db @ [''pull_request_meta''], None))"

section \<open>Python values and name lookup\<close>

text \<open>
  The values that reach the worker from JSON bodies and from pandas frames. A float is a
  finite number, an infinity or NaN; a dict is its items in insertion order.
\<close>

datatype pyfloat = Finite rat | NaN | PosInf | NegInf

datatype pyval =
    PNone | PBool bool | PInt int | PFloat pyfloat | PStr string
  | PList "pyval list" | PDict "(string \<times> pyval) list"

type_synonym pydict = "(string \<times> pyval) list"

text \<open>
  Truth value testing: \<open>None\<close>, \<open>False\<close>, zero and empty containers are false; every
  other value is true, NaN and the infinities among them (\<open>bool(float('nan'))\<close> is
  \<open>True\<close>, since NaN is not equal to zero).
\<close>

fun truthy :: "pyval \<Rightarrow> bool" where
  "truthy PNone = False"
| "truthy (PBool b) = b"
| "truthy (PInt n) = (n \<noteq> 0)"
| "truthy (PFloat (Finite q)) = (q \<noteq> 0)"
| "truthy (PFloat _) = True"
| "truthy (PStr s) = (s \<noteq> [])"
| "truthy (PList xs) = (xs \<noteq> [])"
| "truthy (PDict kvs) = (kvs \<noteq> [])"

text \<open>\<open>d[k]\<close> on a dict, and \<open>v[k]\<close> with a string key on any value.\<close>

definition getitem :: "pydict \<Rightarrow> string \<Rightarrow> py_exc + pyval" where
  "getitem d k = (case map_of d k of None \<Rightarrow> Inl KeyError | Some v \<Rightarrow> Inr v)"

fun py_getitem :: "pyval \<Rightarrow> string \<Rightarrow> py_exc + pyval" where
  "py_getitem (PDict d) k = getitem d k"
| "py_getitem _ k = Inl TypeError"

definition bind_exc :: "py_exc + 'a \<Rightarrow> ('a \<Rightarrow> py_exc + 'b) \<Rightarrow> py_exc + 'b" where
  "bind_exc r f = (case r of Inl e \<Rightarrow> Inl e | Inr v \<Rightarrow> f v)"

text \<open>
  A dict display \<open>{k1: e1, k2: e2, ...}\<close> evaluates its value expressions in order, and the
  first one that raises ends the evaluation. A list comprehension does the same with its
  element expressions.
\<close>

fun eval_dict :: "(string \<times> (py_exc + pyval)) list \<Rightarrow> py_exc + pydict" where
  "eval_dict [] = Inr []"
| "eval_dict ((k, Inl e) # rest) = Inl e"
| "eval_dict ((k, Inr v) # rest) =
     (case eval_dict rest of Inl e \<Rightarrow> Inl e | Inr d \<Rightarrow> Inr ((k, v) # d))"

fun eval_list :: "('a \<Rightarrow> py_exc + 'b) \<Rightarrow> 'a list \<Rightarrow> py_exc + 'b list" where
  "eval_list f [] = Inr []"
| "eval_list f (x # xs) =
     (case f x of Inl e \<Rightarrow> Inl e
      | Inr y \<Rightarrow> (case eval_list f xs of Inl e \<Rightarrow> Inl e | Inr ys \<Rightarrow> Inr (y # ys)))"

text \<open>
  A bare name is looked up in the local scope, then in the enclosing function scopes, then
  in the module's globals, then among the builtins. The body of a class is not an
  enclosing scope of the functions defined in it: a name bound in the class body is an
  attribute of the class and is reached through \<open>self\<close> or the class only.
\<close>

datatype scope = FunctionScope "string list" | ClassScope "string list" | ModuleScope "string list"

definition builtins :: "string list" where
  "builtins =
     [''abs'', ''all'', ''any'', ''ascii'', ''bin'', ''bool'', ''breakpoint'', ''bytearray'',
      ''bytes'', ''callable'', ''chr'', ''classmethod'', ''compile'', ''complex'', ''delattr'',
      ''dict'', ''dir'', ''divmod'', ''enumerate'', ''eval'', ''exec'', ''filter'', ''float'',
      ''format'', ''frozenset'', ''getattr'', ''globals'', ''hasattr'', ''hash'', ''help'',
      ''hex'', ''id'', ''input'', ''int'', ''isinstance'', ''issubclass'', ''iter'', ''len'',
      ''list'', ''locals'', ''map'', ''max'', ''memoryview'', ''min'', ''next'', ''object'',
      ''oct'', ''open'', ''ord'', ''pow'', ''print'', ''property'', ''range'', ''repr'',
      ''reversed'', ''round'', ''set'', ''setattr'', ''slice'', ''sorted'', ''staticmethod'',
      ''str'', ''sum'', ''super'', ''tuple'', ''type'', ''vars'', ''zip'', ''__import__'',
      ''None'', ''True'', ''False'', ''NotImplemented'', ''Ellipsis'', ''Exception'',
      ''BaseException'', ''KeyError'', ''TypeError'', ''ValueError'', ''NameError'']"

fun name_bound :: "string \<Rightarrow> scope list \<Rightarrow> bool" where
  "name_bound x [] = (x \<in> set builtins)"
| "name_bound x (FunctionScope ns # outer) = (x \<in> set ns \<or> name_bound x outer)"
| "name_bound x (ClassScope ns # outer) = name_bound x outer"
| "name_bound x (ModuleScope ns # outer) = (x \<in> set ns \<or> name_bound x outer)"

text \<open>The names the module binds at top level: its imports and its one class.\<close>

definition module_globals :: scope where
  "module_globals = ModuleScope
     [''ast'', ''json'', ''logging'', ''os'', ''sys'', ''time'', ''traceback'',
      ''WorkerGitInterfaceable'', ''source'', ''requests'', ''copy'', ''datetime'',
      ''Process'', ''Queue'', ''pd'', ''s'', ''bindparam'', ''Worker'',
      ''GitHubPullRequestWorker'']"

definition class_body :: scope where
  "class_body = ClassScope
     [''__init__'', ''is_nan'', ''graphql_paginate'', ''pull_request_files_model'',
      ''pull_request_commits_model'', ''_get_pk_source_prs'', ''pull_requests_model'',
      ''pull_request_comments_model'', ''pull_request_events_model'',
      ''pull_request_reviews_model'', ''pull_request_nested_data_model'', ''query_pr_repo'']"

text \<open>
  \<open>is_nan(value)\<close>, as the class body defines it: \<open>type(value) == float and
  math.isnan(value)\<close>. Its body looks \<open>math\<close> up only when the value is a float.
\<close>

definition is_nan_scopes :: "scope list" where
  "is_nan_scopes = [FunctionScope [''value''], class_body, module_globals]"

definition is_nan :: "pyval \<Rightarrow> py_exc + pyval" where
  "is_nan v = (case v of
       PFloat f \<Rightarrow> if name_bound ''math'' is_nan_scopes then Inr (PBool (f = NaN))
                   else Inl NameError
     | _ \<Rightarrow> Inr (PBool False))"

text \<open>
  The expression \<open>x if x else is_nan(x)\<close> of the row builders, evaluated where the scopes
  are \<open>scopes\<close>: the call looks the bare name \<open>is_nan\<close> up first.
\<close>

definition cntrb_id_or_is_nan :: "scope list \<Rightarrow> pyval \<Rightarrow> py_exc + pyval" where
  "cntrb_id_or_is_nan scopes v =
     (if truthy v then Inr v
      else if name_bound ''is_nan'' scopes then is_nan v
      else Inl NameError)"

text \<open>
  \<open>x if x else dflt\<close> and \<open>None if not x else f(x)\<close>, for a field \<open>x = rec[k]\<close>.
\<close>

definition field_or :: "pydict \<Rightarrow> string \<Rightarrow> (pyval \<Rightarrow> py_exc + pyval) \<Rightarrow> pyval \<Rightarrow> py_exc + pyval" where
  "field_or r k f dflt = bind_exc (getitem r k) (\<lambda>v. if truthy v then f v else Inr dflt)"

text \<open>What the worker object holds: the fields the row builders copy into every row.\<close>

record worker_fields =
  repo_id :: int
  platform_id :: int
  tool_source :: string
  tool_version :: string
  data_source :: string

text \<open>
  \<open>str(v).encode(encoding='UTF-8', errors='backslashreplace').decode(encoding='UTF-8',
  errors='ignore')\<close> is the parameter \<open>clean\<close> of the row builders: it returns a string and
  does not raise.
\<close>

subsection \<open>Pull request rows: \<open>pk_source_increment_insert\<close> in \<open>_get_pk_source_prs\<close>\<close>

definition pr_row_scopes :: "scope list" where
  "pr_row_scopes =
     [FunctionScope [''pr''],
      FunctionScope [''inc_source_prs'', ''action_map'', ''is_valid_pr_block'', ''prs_insert'',
        ''source_data'', ''gh_merge_fields'', ''augur_merge_fields''],
      FunctionScope [''self'', ''pr_url'', ''pr_action_map'', ''pk_source_increment_insert'',
        ''source_prs'', ''pk_source_prs''],
      class_body, module_globals]"

definition pr_insert_row :: "worker_fields \<Rightarrow> (pyval \<Rightarrow> string) \<Rightarrow> pydict \<Rightarrow> py_exc + pydict" where
  "pr_insert_row w clean pr = eval_dict
     [(''repo_id'', Inr (PInt (repo_id w))),
      (''pr_url'', getitem pr ''url''),
      (''pr_src_id'', getitem pr ''id''),
      (''pr_src_node_id'', getitem pr ''node_id''),
      (''pr_html_url'', getitem pr ''html_url''),
      (''pr_diff_url'', getitem pr ''diff_url''),
      (''pr_patch_url'', getitem pr ''patch_url''),
      (''pr_issue_url'', getitem pr ''issue_url''),
      (''pr_augur_issue_id'', Inr PNone),
      (''pr_src_number'', getitem pr ''number''),
      (''pr_src_state'', getitem pr ''state''),
      (''pr_src_locked'', getitem pr ''locked''),
      (''pr_src_title'', field_or pr ''title'' (\<lambda>v. Inr (PStr (clean v))) (PStr '' '')),
      (''pr_augur_contributor_id'', bind_exc (getitem pr ''cntrb_id'') (cntrb_id_or_is_nan pr_row_scopes)),
      (''pr_body'', field_or pr ''body'' (\<lambda>v. Inr (PStr (clean v))) PNone),
      (''pr_created_at'', getitem pr ''created_at''),
      (''pr_updated_at'', getitem pr ''updated_at''),
      (''pr_closed_at'', field_or pr ''closed_at'' Inr PNone),
      (''pr_merged_at'', field_or pr ''merged_at'' Inr PNone),
      (''pr_merge_commit_sha'', getitem pr ''merge_commit_sha''),
      (''pr_teams'', Inr PNone),
      (''pr_milestone'', Inr PNone),
      (''pr_commits_url'', getitem pr ''commits_url''),
      (''pr_review_comments_url'', getitem pr ''review_comments_url''),
      (''pr_review_comment_url'', getitem pr ''review_comment_url''),
      (''pr_comments_url'', getitem pr ''comments_url''),
      (''pr_statuses_url'', getitem pr ''statuses_url''),
      (''pr_meta_head_id'', field_or pr ''head'' (\<lambda>v. py_getitem v ''label'') PNone),
      (''pr_meta_base_id'', field_or pr ''base'' (\<lambda>v. py_getitem v ''label'') PNone),
      (''pr_src_issue_url'', getitem pr ''issue_url''),
      (''pr_src_comments_url'', getitem pr ''comments_url''),
      (''pr_src_review_comments_url'', getitem pr ''review_comments_url''),
      (''pr_src_commits_url'', getitem pr ''commits_url''),
      (''pr_src_statuses_url'', getitem pr ''statuses_url''),
      (''pr_src_author_association'', getitem pr ''author_association''),
      (''tool_source'', Inr (PStr (tool_source w @ ''_reviews''))),
      (''tool_version'', Inr (PStr (tool_version w))),
      (''data_source'', Inr (PStr ''Pull Request Reviews Github API''))]"

definition prs_insert :: "worker_fields \<Rightarrow> (pyval \<Rightarrow> string) \<Rightarrow> pydict list \<Rightarrow> py_exc + pydict list" where
  "prs_insert w clean inc_source_prs_insert = eval_list (pr_insert_row w clean) inc_source_prs_insert"

subsection \<open>Comment rows: \<open>pr_comments_insert\<close> in \<open>pull_request_comments_model\<close>\<close>

text \<open>
  \<open>int(v)\<close>: an int or a bool converts to itself, a finite float is truncated towards
  zero, NaN raises \<open>ValueError\<close>, an infinity \<open>OverflowError\<close>, \<open>None\<close> and containers
  \<open>TypeError\<close>. A string converts when, with the blanks around it removed, it is an
  optional sign and decimal digits; the digit-group underscores and the non-ASCII digits
  Python also accepts are not: such a string raises \<open>ValueError\<close> here.
\<close>

definition digit_of :: "char \<Rightarrow> nat option" where
  "digit_of c = (let n = (of_char c :: nat) in if 48 \<le> n \<and> n \<le> 57 then Some (n - 48) else None)"

fun digits_value :: "nat \<Rightarrow> string \<Rightarrow> nat option" where
  "digits_value acc [] = Some acc"
| "digits_value acc (c # cs) =
     (case digit_of c of None \<Rightarrow> None | Some d \<Rightarrow> digits_value (10 * acc + d) cs)"

definition is_blank :: "char \<Rightarrow> bool" where
  "is_blank c = (c \<in> set [CHR '' '', CHR 0x09, CHR 0x0A, CHR 0x0B, CHR 0x0C, CHR 0x0D])"

definition strip :: "string \<Rightarrow> string" where
  "strip s = rev (dropWhile is_blank (rev (dropWhile is_blank s)))"

definition int_of_string :: "string \<Rightarrow> py_exc + int" where
  "int_of_string s =
     (let t = strip s;
          (neg, ds) = (case t of c # cs \<Rightarrow>
                         if c = CHR ''-'' then (True, cs)
                         else if c = CHR ''+'' then (False, cs) else (False, t)
                       | [] \<Rightarrow> (False, t))
      in if ds = [] then Inl ValueError
         else (case digits_value 0 ds of None \<Rightarrow> Inl ValueError
               | Some n \<Rightarrow> Inr (if neg then - int n else int n)))"

fun py_int :: "pyval \<Rightarrow> py_exc + int" where
  "py_int (PInt n) = Inr n"
| "py_int (PBool b) = Inr (if b then 1 else 0)"
| "py_int (PFloat (Finite q)) = Inr (if q < 0 then \<lceil>q\<rceil> else \<lfloor>q\<rfloor>)"
| "py_int (PFloat NaN) = Inl ValueError"
| "py_int (PFloat PosInf) = Inl OverflowError"
| "py_int (PFloat NegInf) = Inl OverflowError"
| "py_int (PStr s) = int_of_string s"
| "py_int PNone = Inl TypeError"
| "py_int (PList xs) = Inl TypeError"
| "py_int (PDict d) = Inl TypeError"

definition int_field :: "pydict \<Rightarrow> string \<Rightarrow> py_exc + pyval" where
  "int_field r k = bind_exc (getitem r k) (\<lambda>v. bind_exc (py_int v) (\<lambda>n. Inr (PInt n)))"

definition comment_row_scopes :: "scope list" where
  "comment_row_scopes =
     [FunctionScope [''comment''],
      FunctionScope [''inc_pr_comments'', ''comment_action_map'', ''comment_ref_action_map'',
        ''pr_comments_insert'', ''c_pk_source_comments'', ''both_pk_source_comments'',
        ''pr_message_ref_insert'', ''e'', ''stacker''],
      FunctionScope [''self'', ''pk_source_prs'', ''comments_url'', ''comment_action_map'',
        ''comment_ref_action_map'', ''pr_comments_insert'', ''pr_comments'', ''e'', ''stacker''],
      class_body, module_globals]"

definition comment_insert_row :: "worker_fields \<Rightarrow> (pyval \<Rightarrow> string) \<Rightarrow> pydict \<Rightarrow> py_exc + pydict" where
  "comment_insert_row w clean comment = eval_dict
     [(''pltfrm_id'', Inr (PInt (platform_id w))),
      (''msg_text'', field_or comment ''body'' (\<lambda>v. Inr (PStr (clean v))) (PStr '' '')),
      (''msg_timestamp'', getitem comment ''created_at''),
      (''cntrb_id'', bind_exc (getitem comment ''cntrb_id'') (cntrb_id_or_is_nan comment_row_scopes)),
      (''tool_source'', Inr (PStr (tool_source w))),
      (''tool_version'', Inr (PStr (tool_version w))),
      (''data_source'', Inr (PStr (data_source w))),
      (''repo_id'', Inr (PInt (repo_id w))),
      (''platform_msg_id'', int_field comment ''id''),
      (''platform_node_id'', getitem comment ''node_id'')]"

definition pr_comments_insert :: "worker_fields \<Rightarrow> (pyval \<Rightarrow> string) \<Rightarrow> pydict list \<Rightarrow> py_exc + pydict list" where
  "pr_comments_insert w clean inc_pr_comments_insert =
     eval_list (comment_insert_row w clean) inc_pr_comments_insert"

subsection \<open>Event rows: \<open>pull_request_events_model\<close>\<close>

text \<open>
  The rows built from \<open>pk_pr_events\<close> after the contributor enrichment: the comprehension
  keeps an event only \<open>if event['actor'] is not None\<close>, then builds its row.
\<close>

definition event_row_scopes :: "scope list" where
  "event_row_scopes =
     [FunctionScope [''event''],
      FunctionScope [''self'', ''pk_source_prs'', ''events_url'', ''event_action_map'',
        ''pr_events'', ''pk_pr_events'', ''index'', ''issue'', ''pr_events_insert''],
      class_body, module_globals]"



subsection \<open>Sample records\<close>

definition demo_fields :: worker_fields where
  "demo_fields = \<lparr> repo_id = 1, platform_id = 25150, tool_source = ''GitHub Pull Request Worker'',
     tool_version = ''1.0.0'', data_source = ''GitHub API'' \<rparr>"

definition demo_clean :: "pyval \<Rightarrow> string" where
  "demo_clean v = (case v of PStr s \<Rightarrow> s | _ \<Rightarrow> ''?'')"

definition demo_pr :: "pyval \<Rightarrow> pydict" where
  "demo_pr cntrb_id =
     [(''url'', PStr ''https://api.github.com/repos/o/r/pulls/7''), (''id'', PInt 1007),
      (''node_id'', PStr ''PR_7''), (''html_url'', PStr ''h''), (''diff_url'', PStr ''d''),
      (''patch_url'', PStr ''p''), (''issue_url'', PStr ''i''), (''number'', PInt 7),
      (''state'', PStr ''open''), (''locked'', PBool False), (''title'', PStr ''Fix''),
      (''cntrb_id'', cntrb_id), (''body'', PNone), (''created_at'', PStr ''2021-12-06''),
      (''updated_at'', PStr ''2021-12-06''), (''closed_at'', PNone), (''merged_at'', PNone),
      (''merge_commit_sha'', PNone), (''commits_url'', PStr ''c''),
      (''review_comments_url'', PStr ''rc''), (''review_comment_url'', PStr ''r''),
      (''comments_url'', PStr ''cm''), (''statuses_url'', PStr ''s''),
      (''head'', PDict [(''label'', PStr ''o:fix'')]), (''base'', PDict [(''label'', PStr ''o:main'')]),
      (''author_association'', PStr ''MEMBER'')]"

definition demo_comment :: "pyval \<Rightarrow> pydict" where
  "demo_comment cntrb_id =
     [(''body'', PStr ''looks good''), (''created_at'', PStr ''2021-12-06''),
      (''cntrb_id'', cntrb_id), (''id'', PInt 55), (''node_id'', PStr ''C_55'')]"





section \<open>The pull-request-files differ: \<open>pull_request_files_model\<close>\<close>

text \<open>
  A fetched row is the dict the method builds for one file of one pull request; a
  persisted row is a row of \<open>pull_request_files\<close>, which has the same columns and its
  primary key \<open>pr_file_id\<close>. \<open>None\<close> is a missing value of a frame (NaN or \<open>None\<close>) and
  NULL in the table.
\<close>

record pr_file_row =
  pull_request_id :: "int option"
  pr_file_additions :: "int option"
  pr_file_deletions :: "int option"
  pr_file_path :: "string option"
  row_tool_source :: string
  row_tool_version :: string
  row_data_source :: string
  row_repo_id :: int

record table_row = pr_file_row +
  pr_file_id :: int

text \<open>The rows of \<open>need_updates\<close> after the two \<open>b_\<close> columns have been added.\<close>

record update_row = pr_file_row +
  b_pull_request_id :: "int option"
  b_pr_file_path :: "string option"

definition dupe_columns :: "'a pr_file_row_scheme \<Rightarrow> int option \<times> string option" where
  "dupe_columns r = (pull_request_id r, pr_file_path r)"

definition update_columns :: "'a pr_file_row_scheme \<Rightarrow> int option \<times> int option" where
  "update_columns r = (pr_file_additions r, pr_file_deletions r)"

text \<open>
  Two uses of \<open>DataFrame.merge\<close>, each followed by the projection to the left frame's
  columns. A merge matches rows whose key columns are equal, missing values matching
  missing values. \<open>merge_left_only\<close> is the outer merge with the indicator, filtered to
  \<open>left_only\<close>: the left rows no right row matches. \<open>merge_inner\<close> is the inner merge: a left
  row once for every right row that matches it. Rows are listed in the order of the left
  frame; the order in which pandas returns the rows of an outer merge plays no part in
  what follows.
\<close>

definition merge_left_only :: "('a \<Rightarrow> 'k) \<Rightarrow> ('b \<Rightarrow> 'k) \<Rightarrow> 'a list \<Rightarrow> 'b list \<Rightarrow> 'a list" where
  "merge_left_only lkey rkey left right = filter (\<lambda>r. lkey r \<notin> set (map rkey right)) left"

definition merge_inner :: "('a \<Rightarrow> 'k) \<Rightarrow> ('b \<Rightarrow> 'k) \<Rightarrow> 'a list \<Rightarrow> 'b list \<Rightarrow> 'a list" where
  "merge_inner lkey rkey left right =
     concat (map (\<lambda>r. map (\<lambda>t. r) (filter (\<lambda>t. rkey t = lkey r) right)) left)"

definition dropna_pull_request_id :: "pr_file_row list \<Rightarrow> pr_file_row list" where
  "dropna_pull_request_id pr_file_rows = filter (\<lambda>r. pull_request_id r \<noteq> None) pr_file_rows"

definition need_insertion :: "pr_file_row list \<Rightarrow> table_row list \<Rightarrow> pr_file_row list" where
  "need_insertion pr_file_rows table_values =
     merge_left_only dupe_columns dupe_columns (dropna_pull_request_id pr_file_rows) table_values"

definition need_updates :: "pr_file_row list \<Rightarrow> table_row list \<Rightarrow> pr_file_row list" where
  "need_updates pr_file_rows table_values =
     merge_left_only update_columns update_columns
       (merge_inner dupe_columns dupe_columns (dropna_pull_request_id pr_file_rows) table_values)
       table_values"

definition with_b_columns :: "pr_file_row \<Rightarrow> update_row" where
  "with_b_columns r = pr_file_row.extend r
     \<lparr> b_pull_request_id = pull_request_id r, b_pr_file_path = pr_file_path r \<rparr>"

subsection \<open>The update statement\<close>

text \<open>
  A SQLAlchemy comparison \<open>column == bindparam(name)\<close> is an expression object. Python's
  \<open>a and b\<close> is \<open>b\<close> when \<open>a\<close> is true and \<open>a\<close> otherwise, and the truth value of an
  equality expression is whether its two operands are the same object. The where clause
  of the update is written with \<open>and\<close>.
\<close>

datatype operand = Column string | BindParam string

datatype clause = BinaryEq operand operand | AndClause clause clause

fun clause_bool :: "clause \<Rightarrow> py_exc + bool" where
  "clause_bool (BinaryEq l r) = Inr (l = r)"
| "clause_bool (AndClause a b) = Inl TypeError"

definition py_and :: "clause \<Rightarrow> clause \<Rightarrow> py_exc + clause" where
  "py_and a b = (case clause_bool a of Inl e \<Rightarrow> Inl e | Inr t \<Rightarrow> Inr (if t then b else a))"

definition update_where :: "py_exc + clause" where
  "update_where =
     py_and (BinaryEq (Column ''pull_request_id'') (BindParam ''b_pull_request_id''))
            (BinaryEq (Column ''pr_file_path'') (BindParam ''b_pr_file_path''))"

datatype sqlval = SqlNull | SqlInt int | SqlText string

definition sql_int :: "int option \<Rightarrow> sqlval" where
  "sql_int v = (case v of None \<Rightarrow> SqlNull | Some n \<Rightarrow> SqlInt n)"

definition sql_text :: "string option \<Rightarrow> sqlval" where
  "sql_text v = (case v of None \<Rightarrow> SqlNull | Some s \<Rightarrow> SqlText s)"

definition column_value :: "table_row \<Rightarrow> string \<Rightarrow> sqlval" where
  "column_value t c =
     (if c = ''pull_request_id'' then sql_int (pull_request_id t)
      else if c = ''pr_file_path'' then sql_text (pr_file_path t)
      else if c = ''pr_file_additions'' then sql_int (pr_file_additions t)
      else if c = ''pr_file_deletions'' then sql_int (pr_file_deletions t)
      else if c = ''pr_file_id'' then SqlInt (pr_file_id t)
      else SqlNull)"

definition param_value :: "update_row \<Rightarrow> string \<Rightarrow> sqlval" where
  "param_value p n =
     (if n = ''b_pull_request_id'' then sql_int (b_pull_request_id p)
      else if n = ''b_pr_file_path'' then sql_text (b_pr_file_path p)
      else if n = ''pr_file_additions'' then sql_int (pr_file_additions p)
      else if n = ''pr_file_deletions'' then sql_int (pr_file_deletions p)
      else SqlNull)"

fun operand_value :: "table_row \<Rightarrow> update_row \<Rightarrow> operand \<Rightarrow> sqlval" where
  "operand_value t p (Column c) = column_value t c"
| "operand_value t p (BindParam n) = param_value p n"

text \<open>In SQL a comparison with NULL is not true, and \<open>WHERE\<close> keeps the rows where it is.\<close>

fun clause_holds :: "table_row \<Rightarrow> update_row \<Rightarrow> clause \<Rightarrow> bool" where
  "clause_holds t p (BinaryEq l r) =
     (operand_value t p l \<noteq> SqlNull \<and> operand_value t p l = operand_value t p r)"
| "clause_holds t p (AndClause a b) = (clause_holds t p a \<and> clause_holds t p b)"

text \<open>
  The SET clause. The statement names \<open>pr_file_additions\<close> and \<open>pr_file_deletions\<close> in
  \<open>values(...)\<close>. It is executed with a list of parameter dicts, and for an update executed
  that way SQLAlchemy also sets every column of the table that is a key of the dicts (which
  is why a bind parameter of the where clause may not be named like a column, and why the
  method adds the \<open>b_\<close> columns). The dicts are the rows of \<open>need_updates\<close>: the fetched
  columns and the two \<open>b_\<close> columns. The columns of the table are the keys of the rows the
  method inserts into it, and its primary key.
\<close>

definition params_keys :: "string list" where
  "params_keys =
     [''pull_request_id'', ''pr_file_additions'', ''pr_file_deletions'', ''pr_file_path'',
      ''tool_source'', ''tool_version'', ''data_source'', ''repo_id'',
      ''b_pull_request_id'', ''b_pr_file_path'']"

definition pull_request_files_columns :: "string list" where
  "pull_request_files_columns =
     [''pr_file_id'', ''pull_request_id'', ''pr_file_additions'', ''pr_file_deletions'',
      ''pr_file_path'', ''tool_source'', ''tool_version'', ''data_source'', ''repo_id'']"

definition set_clause :: "string list" where
  "set_clause =
     remdups ([''pr_file_additions'', ''pr_file_deletions'']
              @ filter (\<lambda>k. k \<in> set pull_request_files_columns) params_keys)"

definition assign :: "update_row \<Rightarrow> string \<Rightarrow> table_row \<Rightarrow> table_row" where
  "assign p c t =
     (if c = ''pull_request_id'' then t\<lparr> pull_request_id := pull_request_id p \<rparr>
      else if c = ''pr_file_additions'' then t\<lparr> pr_file_additions := pr_file_additions p \<rparr>
      else if c = ''pr_file_deletions'' then t\<lparr> pr_file_deletions := pr_file_deletions p \<rparr>
      else if c = ''pr_file_path'' then t\<lparr> pr_file_path := pr_file_path p \<rparr>
      else if c = ''tool_source'' then t\<lparr> row_tool_source := row_tool_source p \<rparr>
      else if c = ''tool_version'' then t\<lparr> row_tool_version := row_tool_version p \<rparr>
      else if c = ''data_source'' then t\<lparr> row_data_source := row_data_source p \<rparr>
      else if c = ''repo_id'' then t\<lparr> row_repo_id := row_repo_id p \<rparr>
      else t)"

text \<open>
  \<open>UPDATE pull_request_files SET ... WHERE ...\<close>, once for one parameter row and then for
  a list of them in turn, as \<open>execute\<close> does with a list of parameter dicts.
\<close>

definition update_one :: "clause \<Rightarrow> update_row \<Rightarrow> table_row list \<Rightarrow> table_row list" where
  "update_one wh p table =
     map (\<lambda>t. if clause_holds t p wh then fold (assign p) set_clause t else t) table"

fun execute_update :: "clause \<Rightarrow> update_row list \<Rightarrow> table_row list \<Rightarrow> table_row list" where
  "execute_update wh [] table = table"
| "execute_update wh (p # ps) table = execute_update wh ps (update_one wh p table)"

text \<open>The insert gives the new rows the next values of the key's sequence.\<close>

fun execute_insert :: "int \<Rightarrow> pr_file_row list \<Rightarrow> table_row list \<Rightarrow> table_row list" where
  "execute_insert next_id [] table = table"
| "execute_insert next_id (r # rs) table =
     execute_insert (next_id + 1) rs (table @ [pr_file_row.extend r \<lparr> pr_file_id = next_id \<rparr>])"

definition next_pr_file_id :: "table_row list \<Rightarrow> int" where
  "next_pr_file_id table = fold (\<lambda>t m. max m (pr_file_id t + 1)) table 1"

text \<open>
  The method from the comparison on, on the fetched rows and the table, which here is both
  what \<open>table_values\<close> read and what the statements write. With no fetched row it returns
  before comparing. The store does not fail in this model, so each of the two retry loops
  runs its statement once.
\<close>

definition pull_request_files_model :: "pr_file_row list \<Rightarrow> table_row list \<Rightarrow> py_exc + table_row list" where
  "pull_request_files_model pr_file_rows table =
     (if pr_file_rows = [] then Inr table
      else
        let pr_file_insert_rows = need_insertion pr_file_rows table;
            pr_file_update_rows = map with_b_columns (need_updates pr_file_rows table)
        in case (if pr_file_update_rows \<noteq> []
                 then (case update_where of Inl e \<Rightarrow> Inl e
                       | Inr wh \<Rightarrow> Inr (execute_update wh pr_file_update_rows table))
                 else Inr table) of
             Inl e \<Rightarrow> Inl e
           | Inr table1 \<Rightarrow>
               Inr (if pr_file_insert_rows \<noteq> []
                    then execute_insert (next_pr_file_id table1) pr_file_insert_rows table1
                    else table1))"

subsection \<open>Sample rows\<close>

definition file_row :: "int \<Rightarrow> string \<Rightarrow> int \<Rightarrow> int \<Rightarrow> pr_file_row" where
  "file_row pr path additions deletions =
     \<lparr> pull_request_id = Some pr, pr_file_additions = Some additions,
       pr_file_deletions = Some deletions, pr_file_path = Some path,
       row_tool_source = ''GitHub Pull Request Worker'', row_tool_version = ''1.0.0'',
       row_data_source = ''GitHub API'', row_repo_id = 1 \<rparr>"

definition stored :: "int \<Rightarrow> pr_file_row \<Rightarrow> table_row" where
  "stored n r = pr_file_row.extend r \<lparr> pr_file_id = n \<rparr>"

section \<open>The GraphQL paginator: \<open>graphql_paginate\<close>\<close>

subsection \<open>Operators on values\<close>

fun starts_with :: "string \<Rightarrow> string \<Rightarrow> bool" where
  "starts_with [] s = True"
| "starts_with (p # ps) [] = False"
| "starts_with (p # ps) (c # cs) = (p = c \<and> starts_with ps cs)"

fun is_substring :: "string \<Rightarrow> string \<Rightarrow> bool" where
  "is_substring p [] = (p = [])"
| "is_substring p (c # cs) = (starts_with p (c # cs) \<or> is_substring p cs)"

text \<open>
  \<open>k in v\<close> for a string \<open>k\<close>: a key of a dict, an element of a list, a substring of a
  string; the other values are not iterable.
\<close>

fun py_contains :: "string \<Rightarrow> pyval \<Rightarrow> py_exc + bool" where
  "py_contains k (PDict d) = Inr (k \<in> set (map fst d))"
| "py_contains k (PList xs) = Inr (PStr k \<in> set xs)"
| "py_contains k (PStr s) = Inr (is_substring k s)"
| "py_contains k _ = Inl TypeError"

text \<open>\<open>v[0]\<close>: a dict read from JSON has no key 0.\<close>

fun py_index0 :: "pyval \<Rightarrow> py_exc + pyval" where
  "py_index0 (PList []) = Inl IndexError"
| "py_index0 (PList (x # xs)) = Inr x"
| "py_index0 (PStr []) = Inl IndexError"
| "py_index0 (PStr (c # cs)) = Inr (PStr [c])"
| "py_index0 (PDict d) = Inl KeyError"
| "py_index0 _ = Inl TypeError"

text \<open>\<open>tuples += data\<close>: a list is extended by the elements of any iterable.\<close>

fun py_extend :: "pyval list \<Rightarrow> pyval \<Rightarrow> py_exc + pyval list" where
  "py_extend tuples (PList xs) = Inr (tuples @ xs)"
| "py_extend tuples (PDict d) = Inr (tuples @ map (\<lambda>kv. PStr (fst kv)) d)"
| "py_extend tuples (PStr s) = Inr (tuples @ map (\<lambda>c. PStr [c]) s)"
| "py_extend tuples _ = Inl TypeError"

subsection \<open>The subjects and the cursors\<close>

text \<open>
  \<open>data_subjects\<close> maps each paginated field to \<open>None\<close> or to the dict of the fields nested
  in it. \<open>before_parameters\<close> maps each field to the text spliced into the query: the empty
  string, or \<open>, before: "c"\<close> for a cursor \<open>c\<close>.
\<close>

datatype subjects = SNone | SDict "(string \<times> subjects) list"

datatype before_arg = NoBefore | Before pyval

type_synonym before_parameters = "(string \<times> before_arg) list"

fun truthy_subjects :: "subjects \<Rightarrow> bool" where
  "truthy_subjects SNone = False"
| "truthy_subjects (SDict d) = (d \<noteq> [])"

text \<open>The generator \<open>all_items\<close>: every item, and after an item whose value is a dict, its items.\<close>

fun all_items :: "(string \<times> subjects) list \<Rightarrow> (string \<times> subjects) list" where
  "all_items [] = []"
| "all_items ((key, SNone) # rest) = (key, SNone) # all_items rest"
| "all_items ((key, SDict d) # rest) = (key, SDict d) # all_items d @ all_items rest"

text \<open>
  The start of the method: a missing or empty \<open>before_parameters\<close> is filled with the empty
  string for every subject, and the loop variable \<open>subject\<close> stays bound to the last one;
  otherwise \<open>subject\<close> is never bound in this call.
\<close>

definition init_before ::
  "(string \<times> subjects) list \<Rightarrow> before_parameters option \<Rightarrow> before_parameters \<times> string option" where
  "init_before data_subjects before_parameters =
     (if before_parameters = None \<or> before_parameters = Some [] then
        (fold (\<lambda>item bp. AList.update (fst item) NoBefore bp) (all_items data_subjects) [],
         (case all_items data_subjects of [] \<Rightarrow> None | items \<Rightarrow> Some (fst (last items))))
      else (the before_parameters, None))"

subsection \<open>Finding the page in a response\<close>

fun find_root_items :: "(string \<times> pyval) list \<Rightarrow> string \<Rightarrow> py_exc + pyval" where
  "find_root_items [] key_subject = Inl KeyError"
| "find_root_items ((subject, nest) # rest) key_subject =
     (case py_contains key_subject nest of
        Inl e \<Rightarrow> Inl e
      | Inr True \<Rightarrow> py_getitem nest key_subject
      | Inr False \<Rightarrow>
          (case nest of PDict d \<Rightarrow> find_root_items d key_subject
           | _ \<Rightarrow> find_root_items rest key_subject))"

definition find_root_of_subject :: "pyval \<Rightarrow> string \<Rightarrow> py_exc + pyval" where
  "find_root_of_subject data key_subject =
     (case data of PDict d \<Rightarrow> find_root_items d key_subject | _ \<Rightarrow> Inl AttributeError)"

subsection \<open>The remote endpoint and the worker's calls\<close>

text \<open>
  The endpoint is the list of its answers to the requests still to come: the value
  \<open>response.json()\<close> gives (the body's text where the body is not JSON), or the exception
  \<open>requests.post\<close> raises. The calls the method makes are recorded in order: a request
  with the cursors it carried, and \<open>update_gh_rate_limit\<close> with its flag. That method
  belongs to the worker's base class; here it is recorded and returns.
\<close>

datatype http = Response pyval | Raises py_exc

datatype rate_flag = Plain | TemporarilyDisable | BadCredentials

datatype action = Post before_parameters | UpdateRateLimit rate_flag

record endpoint =
  script :: "http list"
  actions :: "action list"

definition record_action :: "action \<Rightarrow> endpoint \<Rightarrow> endpoint" where
  "record_action a st = st\<lparr> actions := actions st @ [a] \<rparr>"

definition error_type :: "pyval \<Rightarrow> py_exc + pyval" where
  "error_type data =
     bind_exc (py_getitem data ''errors'') (\<lambda>errors.
     bind_exc (py_index0 errors) (\<lambda>first. py_getitem first ''type''))"

definition abuse_message :: string where
  "abuse_message = ''You have triggered an abuse detection mechanism. Please wait a few minutes before you try again.''"

text \<open>
  One pass through the body of \<open>for attempt in range(num_attempts)\<close>: the request, the
  rate-limit bookkeeping and the reading of the answer. The pass ends the loop with the
  page (\<open>success\<close>) or with no page (\<open>break\<close>), goes on to the next attempt (\<open>continue\<close> or
  the end of the body), or raises. The variable \<open>num_attempts\<close> is decremented in two
  branches; the pass returns it. There is no value when the endpoint has no answer left.
\<close>

datatype attempt_result = Raised py_exc | Break "(pyval \<times> pyval) option" | NextAttempt

definition attempt ::
  "int \<Rightarrow> string \<Rightarrow> before_parameters \<Rightarrow> endpoint \<Rightarrow> (attempt_result \<times> int \<times> endpoint) option" where
  "attempt num_attempts data_subject bp st =
     (case script st of
        [] \<Rightarrow> None
      | Raises e # answers \<Rightarrow>
          Some (Raised e, num_attempts, record_action (Post bp) (st\<lparr> script := answers \<rparr>))
      | Response data # answers \<Rightarrow>
          (let st1 = record_action (UpdateRateLimit Plain)
                       (record_action (Post bp) (st\<lparr> script := answers \<rparr>))
           in case py_contains ''errors'' data of
                Inl e \<Rightarrow> Some (Raised e, num_attempts, st1)
              | Inr True \<Rightarrow>
                  (case error_type data of
                     Inl e \<Rightarrow> Some (Raised e, num_attempts, st1)
                   | Inr t \<Rightarrow>
                       if t = PStr ''NOT_FOUND'' then Some (Break None, num_attempts, st1)
                       else if t = PStr ''RATE_LIMITED'' then
                         Some (NextAttempt, num_attempts - 1,
                               record_action (UpdateRateLimit Plain) st1)
                       else Some (NextAttempt, num_attempts, st1))
              | Inr False \<Rightarrow>
                  (case py_contains ''data'' data of
                     Inl e \<Rightarrow> Some (Raised e, num_attempts, st1)
                   | Inr True \<Rightarrow>
                       (case find_root_of_subject data data_subject of
                          Inl e \<Rightarrow> Some (Raised e, num_attempts, st1)
                        | Inr subject_root \<Rightarrow>
                            (case py_getitem subject_root ''pageInfo'' of
                               Inl e \<Rightarrow> Some (Raised e, num_attempts, st1)
                             | Inr page_info \<Rightarrow>
                                 (case py_getitem subject_root ''edges'' of
                                    Inl e \<Rightarrow> Some (Raised e, num_attempts, st1)
                                  | Inr edges \<Rightarrow>
                                      Some (Break (Some (page_info, edges)), num_attempts, st1))))
                   | Inr False \<Rightarrow>
                       (case py_getitem data ''message'' of
                          Inl e \<Rightarrow> Some (Raised e, num_attempts, st1)
                        | Inr message \<Rightarrow>
                            if message = PStr ''Not Found'' then Some (Break None, num_attempts, st1)
                            else
                              let num_attempts' =
                                    (if message = PStr abuse_message then num_attempts - 1
                                     else num_attempts);
                                  st2 = (if message = PStr abuse_message
                                         then record_action (UpdateRateLimit TemporarilyDisable) st1
                                         else st1);
                                  st3 = (if message = PStr ''Bad credentials''
                                         then record_action (UpdateRateLimit BadCredentials) st2
                                         else st2)
                              in Some (NextAttempt, num_attempts', st3)))))"

text \<open>
  The loop over the attempts still to make. The range is built once, from
  \<open>num_attempts = 3\<close>, before the first pass, so what the passes do to the variable does
  not change the number of passes. With the range used up there is no page.
\<close>

fun attempt_loop ::
  "nat list \<Rightarrow> int \<Rightarrow> string \<Rightarrow> before_parameters \<Rightarrow> endpoint
     \<Rightarrow> ((py_exc + (pyval \<times> pyval) option) \<times> int \<times> endpoint) option" where
  "attempt_loop [] num_attempts data_subject bp st = Some (Inr None, num_attempts, st)"
| "attempt_loop (i # rest) num_attempts data_subject bp st =
     (case attempt num_attempts data_subject bp st of
        None \<Rightarrow> None
      | Some (Raised e, n, st') \<Rightarrow> Some (Inl e, n, st')
      | Some (Break page, n, st') \<Rightarrow> Some (Inr page, n, st')
      | Some (NextAttempt, n, st') \<Rightarrow> attempt_loop rest n data_subject bp st')"

lemma attempt_consumes_one:
  "attempt num_attempts data_subject bp st = Some (r, n, st')
   \<Longrightarrow> length (script st) = Suc (length (script st'))"
  by (auto simp: attempt_def record_action_def Let_def
      split: list.splits http.splits sum.splits bool.splits if_splits)

lemma attempt_loop_script_le:
  "attempt_loop todo num_attempts data_subject bp st = Some (r, n, st')
   \<Longrightarrow> length (script st') \<le> length (script st)"
proof (induction todo arbitrary: num_attempts st)
  case Nil
  then show ?case by simp
next
  case (Cons i rest)
  from Cons.prems obtain a m s where a: "attempt num_attempts data_subject bp st = Some (a, m, s)"
    by (cases "attempt num_attempts data_subject bp st") auto
  from attempt_consumes_one[OF a] have len: "length (script s) < length (script st)" by simp
  show ?case
  proof (cases a)
    case NextAttempt
    with Cons.prems a have "attempt_loop rest m data_subject bp s = Some (r, n, st')" by simp
    from Cons.IH[OF this] len show ?thesis by simp
  qed (use Cons.prems a len in auto)
qed

lemma attempt_loop_script_less:
  assumes "attempt_loop (i # rest) num_attempts data_subject bp st = Some (r, n, st')"
  shows "length (script st') < length (script st)"
proof -
  from assms obtain a m s where a: "attempt num_attempts data_subject bp st = Some (a, m, s)"
    by (cases "attempt num_attempts data_subject bp st") auto
  from attempt_consumes_one[OF a] have len: "length (script s) < length (script st)" by simp
  show ?thesis
  proof (cases a)
    case NextAttempt
    with assms a have "attempt_loop rest m data_subject bp s = Some (r, n, st')" by simp
    from attempt_loop_script_le[OF this] len show ?thesis by simp
  qed (use assms a len in auto)
qed

text \<open>
  The loop \<open>while has_previous_page\<close> for one subject. Each round makes its attempts; with
  no page it leaves the loop, with a page it stores the cursor, reads \<open>hasPreviousPage\<close>
  and appends the edges. It returns the cursors and the tuples.
\<close>

function page_loop ::
  "string \<Rightarrow> before_parameters \<Rightarrow> pyval \<Rightarrow> pyval list \<Rightarrow> endpoint
     \<Rightarrow> ((py_exc + before_parameters \<times> pyval list) \<times> endpoint) option" where
  "page_loop data_subject bp has_previous_page tuples st =
     (if truthy has_previous_page then
        (case attempt_loop [0, 1, 2] 3 data_subject bp st of
           None \<Rightarrow> None
         | Some (Inl e, n, st') \<Rightarrow> Some (Inl e, st')
         | Some (Inr None, n, st') \<Rightarrow> Some (Inr (bp, tuples), st')
         | Some (Inr (Some (page_info, data)), n, st') \<Rightarrow>
             (case py_getitem page_info ''startCursor'' of
                Inl e \<Rightarrow> Some (Inl e, st')
              | Inr start_cursor \<Rightarrow>
                  (case py_getitem page_info ''hasPreviousPage'' of
                     Inl e \<Rightarrow> Some (Inl e, st')
                   | Inr has_previous_page' \<Rightarrow>
                       (case py_extend tuples data of
                          Inl e \<Rightarrow> Some (Inl e, st')
                        | Inr tuples' \<Rightarrow>
                            page_loop data_subject
                              (AList.update data_subject (Before start_cursor) bp)
                              has_previous_page' tuples' st'))))
      else Some (Inr (bp, tuples), st))"
  by pat_completeness auto
termination
  by (relation "measure (\<lambda>(data_subject, bp, has_previous_page, tuples, st). length (script st))")
    (auto simp del: attempt_loop.simps dest: attempt_loop_script_less)

declare page_loop.simps [simp del]

lemma subjects_lookup_smaller: "map_of d k = Some v \<Longrightarrow> size v < size (SDict d)"
proof (induction d)
  case Nil
  then show ?case by simp
next
  case (Cons a d)
  then show ?case by (cases a) (auto split: if_splits)
qed

text \<open>
  The method. It works on the first item of \<open>data_subjects\<close> only, since both ways out of
  the \<open>for\<close> body return: with the tuples when the item has nothing nested, and otherwise
  with the tuples and what the call on \<open>data_subjects[subject]\<close> returns. With no item the
  method returns \<open>None\<close>.
\<close>

function graphql_paginate ::
  "subjects \<Rightarrow> before_parameters option \<Rightarrow> endpoint \<Rightarrow> ((py_exc + pyval) \<times> endpoint) option" where
  "graphql_paginate data_subjects before_parameters st =
     (case data_subjects of
        SNone \<Rightarrow> Some (Inl AttributeError, st)
      | SDict items \<Rightarrow>
          (case init_before items before_parameters of (bp, subject) \<Rightarrow>
             (case items of
                [] \<Rightarrow> Some (Inr PNone, st)
              | (data_subject, nest) # others \<Rightarrow>
                  (case page_loop data_subject bp (PBool True) [] st of
                     None \<Rightarrow> None
                   | Some (Inl e, st') \<Rightarrow> Some (Inl e, st')
                   | Some (Inr (bp', tuples), st') \<Rightarrow>
                       if \<not> truthy_subjects nest then Some (Inr (PList tuples), st')
                       else
                         (case subject of
                            None \<Rightarrow> Some (Inl UnboundLocalError, st')
                          | Some s \<Rightarrow>
                              (case map_of items s of
                                 None \<Rightarrow> Some (Inl KeyError, st')
                               | Some inner \<Rightarrow>
                                   (case graphql_paginate inner (Some bp') st' of
                                      None \<Rightarrow> None
                                    | Some (Inl e, st'') \<Rightarrow> Some (Inl e, st'')
                                    | Some (Inr (PList inner_tuples), st'') \<Rightarrow>
                                        Some (Inr (PList (tuples @ inner_tuples)), st'')
                                    | Some (Inr other, st'') \<Rightarrow> Some (Inl TypeError, st''))))))))"
  by pat_completeness auto
termination
  by (relation "measure (\<lambda>(data_subjects, before_parameters, st). size data_subjects)")
    (auto simp del: map_of.simps dest: subjects_lookup_smaller)

declare graphql_paginate.simps [simp del]

subsection \<open>Responses\<close>

text \<open>
  What the method reads off a response that carries a page of \<open>data_subject\<close>: the start
  cursor, \<open>hasPreviousPage\<close> and the edges.
\<close>

definition reads_page :: "string \<Rightarrow> pyval \<Rightarrow> pyval \<Rightarrow> pyval \<Rightarrow> pyval list \<Rightarrow> bool" where
  "reads_page data_subject data start_cursor has_previous_page edges =
     (py_contains ''errors'' data = Inr False \<and> py_contains ''data'' data = Inr True
      \<and> (case find_root_of_subject data data_subject of
            Inl e \<Rightarrow> False
          | Inr subject_root \<Rightarrow>
              py_getitem subject_root ''edges'' = Inr (PList edges)
              \<and> (case py_getitem subject_root ''pageInfo'' of
                    Inl e \<Rightarrow> False
                  | Inr page_info \<Rightarrow>
                      py_getitem page_info ''startCursor'' = Inr start_cursor
                      \<and> py_getitem page_info ''hasPreviousPage'' = Inr has_previous_page)))"


text \<open>The body GitHub returns for the files query of \<open>pull_request_files_model\<close>.\<close>

definition files_page :: "string \<Rightarrow> bool \<Rightarrow> pyval list \<Rightarrow> pyval" where
  "files_page start_cursor has_previous_page edges =
     PDict [(''data'', PDict [(''repository'', PDict [(''pullRequest'', PDict [(''files'',
       PDict [(''pageInfo'', PDict [(''hasPreviousPage'', PBool has_previous_page),
                                    (''hasNextPage'', PBool False),
                                    (''endCursor'', PStr ''end''),
                                    (''startCursor'', PStr start_cursor)]),
              (''edges'', PList edges)])])])])]"

definition file_edge :: "string \<Rightarrow> int \<Rightarrow> int \<Rightarrow> pyval" where
  "file_edge path additions deletions =
     PDict [(''node'', PDict [(''additions'', PInt additions), (''deletions'', PInt deletions),
                              (''path'', PStr path)])]"


text \<open>
  A body with a page of pull requests, for a query that paginates \<open>pullRequests\<close> and,
  nested in it, \<open>files\<close>.
\<close>

definition pulls_page :: pyval where
  "pulls_page =
     PDict [(''data'', PDict [(''repository'', PDict [(''pullRequests'',
       PDict [(''pageInfo'', PDict [(''hasPreviousPage'', PBool False),
                                    (''startCursor'', PStr ''Y3Vyc29yOjE='')]),
              (''edges'', PList [PDict [(''node'', PDict [(''number'', PInt 7)])]])])])])]"
chapter \<open>The properties\<close>

section \<open>The pull-request-files differ\<close>

lemma set_merge_left_only:
  "set (merge_left_only lkey rkey left right) = {r \<in> set left. lkey r \<notin> rkey ` set right}"
  by (auto simp: merge_left_only_def)

lemma set_merge_inner:
  "set (merge_inner lkey rkey left right) = {r \<in> set left. lkey r \<in> rkey ` set right}"
  by (force simp: merge_inner_def)

lemma in_need_insertion:
  "r \<in> set (need_insertion rows table) \<longleftrightarrow>
     r \<in> set rows \<and> pull_request_id r \<noteq> None \<and> dupe_columns r \<notin> dupe_columns ` set table"
  by (auto simp: need_insertion_def set_merge_left_only dropna_pull_request_id_def)

lemma in_need_updates:
  "r \<in> set (need_updates rows table) \<longleftrightarrow>
     r \<in> set rows \<and> pull_request_id r \<noteq> None \<and> dupe_columns r \<in> dupe_columns ` set table
     \<and> update_columns r \<notin> update_columns ` set table"
  by (auto simp: need_updates_def set_merge_left_only set_merge_inner dropna_pull_request_id_def)

text \<open>
  Claim C1. If every fetched row has a persisted row with the same natural key
  (\<open>pull_request_id\<close>, \<open>pr_file_path\<close>) and the same update columns (\<open>pr_file_additions\<close>,
  \<open>pr_file_deletions\<close>), then the differ computes an empty insert set and an empty update
  set, and the method leaves the table as it is.
\<close>

theorem second_run_is_empty:
  assumes "\<forall>r \<in> set rows. \<exists>t \<in> set table.
      dupe_columns t = dupe_columns r \<and> update_columns t = update_columns r"
  shows "need_insertion rows table = [] \<and> need_updates rows table = []
       \<and> pull_request_files_model rows table = Inr table"
proof -
  have i: "need_insertion rows table = []"
  proof (rule ccontr)
    assume "need_insertion rows table \<noteq> []"
    then obtain r where "r \<in> set (need_insertion rows table)" by (cases "need_insertion rows table") auto
    then have "r \<in> set rows" "dupe_columns r \<notin> dupe_columns ` set table"
      by (simp_all add: in_need_insertion)
    with assms show False by force
  qed
  have u: "need_updates rows table = []"
  proof (rule ccontr)
    assume "need_updates rows table \<noteq> []"
    then obtain r where "r \<in> set (need_updates rows table)" by (cases "need_updates rows table") auto
    then have "r \<in> set rows" "update_columns r \<notin> update_columns ` set table"
      by (simp_all add: in_need_updates)
    with assms show False by force
  qed
  from i u show ?thesis by (simp add: pull_request_files_model_def)
qed

theorem second_run_is_empty_witness:
  "need_insertion [file_row 1 ''a.py'' 3 4, file_row 1 ''b.py'' 0 2]
     [stored 10 (file_row 1 ''a.py'' 3 4), stored 11 (file_row 1 ''b.py'' 0 2)] = []
   \<and> need_updates [file_row 1 ''a.py'' 3 4, file_row 1 ''b.py'' 0 2]
     [stored 10 (file_row 1 ''a.py'' 3 4), stored 11 (file_row 1 ''b.py'' 0 2)] = []
   \<and> pull_request_files_model [file_row 1 ''a.py'' 3 4, file_row 1 ''b.py'' 0 2]
     [stored 10 (file_row 1 ''a.py'' 3 4), stored 11 (file_row 1 ''b.py'' 0 2)]
     = Inr [stored 10 (file_row 1 ''a.py'' 3 4), stored 11 (file_row 1 ''b.py'' 0 2)]"
  using second_run_is_empty[of "[file_row 1 ''a.py'' 3 4, file_row 1 ''b.py'' 0 2]"
      "[stored 10 (file_row 1 ''a.py'' 3 4), stored 11 (file_row 1 ''b.py'' 0 2)]"]
  by (simp add: file_row_def stored_def dupe_columns_def update_columns_def pr_file_row.defs)

lemma insertion_updates_disjoint:
  "set (need_insertion rows table) \<inter> set (need_updates rows table) = {}"
  by (auto simp: in_need_insertion in_need_updates)

lemma in_neither_set:
  "r \<in> set rows \<Longrightarrow> pull_request_id r \<noteq> None \<Longrightarrow>
   (r \<notin> set (need_insertion rows table) \<and> r \<notin> set (need_updates rows table))
   = (dupe_columns r \<in> dupe_columns ` set table \<and> update_columns r \<in> update_columns ` set table)"
  by (auto simp: in_need_insertion in_need_updates)

text \<open>
  Claim C2 at a batch of one changed row. The table holds a.py with counts (1, 1) and b.py
  with counts (2, 2) for pull request 1, and a.py is fetched with counts (2, 2). Its key is
  stored, so it is not in \<open>need_insertion\<close>; its counts differ from those stored for its
  key, yet it is not in \<open>need_updates\<close> either, because the second merge compares the counts
  with those of every stored row and finds them at b.py. The row is in none of insert,
  update and unchanged, and the method writes nothing.
\<close>

theorem changed_row_in_neither_set:
  "need_insertion [file_row 1 ''a.py'' 2 2]
       [stored 1 (file_row 1 ''a.py'' 1 1), stored 2 (file_row 1 ''b.py'' 2 2)] = []
   \<and> need_updates [file_row 1 ''a.py'' 2 2]
       [stored 1 (file_row 1 ''a.py'' 1 1), stored 2 (file_row 1 ''b.py'' 2 2)] = []
   \<and> map update_columns
        (filter (\<lambda>t. dupe_columns t = dupe_columns (file_row 1 ''a.py'' 2 2))
           [stored 1 (file_row 1 ''a.py'' 1 1), stored 2 (file_row 1 ''b.py'' 2 2)])
      = [(Some 1, Some 1)]
   \<and> update_columns (file_row 1 ''a.py'' 2 2) = (Some 2, Some 2)
   \<and> pull_request_files_model [file_row 1 ''a.py'' 2 2]
       [stored 1 (file_row 1 ''a.py'' 1 1), stored 2 (file_row 1 ''b.py'' 2 2)]
      = Inr [stored 1 (file_row 1 ''a.py'' 1 1), stored 2 (file_row 1 ''b.py'' 2 2)]"
  by (simp add: pull_request_files_model_def need_insertion_def need_updates_def
      merge_left_only_def merge_inner_def dropna_pull_request_id_def
      file_row_def stored_def dupe_columns_def update_columns_def pr_file_row.defs)

text \<open>
  Claim C3, amended. The differ does not remove duplicates from the fetched sequence:
  \<open>need_insertion\<close> holds each fetched row as many times as it was fetched when the row has
  a pull request id and its natural key is not in the table, and not at all otherwise. So
  a key that is fetched twice and is new to the table is classified for insertion twice.
\<close>

theorem duplicates_are_all_inserted:
  "count_list (need_insertion rows table) r =
     (if pull_request_id r \<noteq> None \<and> dupe_columns r \<notin> set (map dupe_columns table)
      then count_list rows r else 0)"
  unfolding need_insertion_def merge_left_only_def dropna_pull_request_id_def
  by (induction rows) auto


theorem duplicates_are_all_inserted_witness:
  "count_list (need_insertion [file_row 1 ''a.py'' 1 1, file_row 1 ''a.py'' 1 1]
       [stored 1 (file_row 2 ''z.py'' 0 0)]) (file_row 1 ''a.py'' 1 1) = 2"
  using duplicates_are_all_inserted[of "[file_row 1 ''a.py'' 1 1, file_row 1 ''a.py'' 1 1]"
      "[stored 1 (file_row 2 ''z.py'' 0 0)]" "file_row 1 ''a.py'' 1 1"]
  by (simp add: file_row_def stored_def dupe_columns_def pr_file_row.defs)

text \<open>
  The claim as written fails: the key (1, a.py), fetched twice with different counts and
  new to the table, ends as two rows of the table, the earlier occurrence among them.
\<close>

theorem duplicate_key_counterexample:
  "pull_request_files_model [file_row 1 ''a.py'' 1 1, file_row 1 ''a.py'' 2 2]
       [stored 1 (file_row 2 ''z.py'' 0 0)]
   = Inr [stored 1 (file_row 2 ''z.py'' 0 0), stored 2 (file_row 1 ''a.py'' 1 1),
          stored 3 (file_row 1 ''a.py'' 2 2)]"
  by (simp add: pull_request_files_model_def need_insertion_def need_updates_def
      merge_left_only_def merge_inner_def dropna_pull_request_id_def next_pr_file_id_def
      file_row_def stored_def dupe_columns_def update_columns_def pr_file_row.defs)

lemma update_where_is_first_comparison:
  "update_where = Inr (BinaryEq (Column ''pull_request_id'') (BindParam ''b_pull_request_id''))"
  by (simp add: update_where_def py_and_def)

lemma set_clause_columns:
  "set_clause = [''pull_request_id'', ''pr_file_additions'', ''pr_file_deletions'',
     ''pr_file_path'', ''tool_source'', ''tool_version'', ''data_source'', ''repo_id'']"
  by (simp add: set_clause_def params_keys_def pull_request_files_columns_def)

text \<open>
  Claim C4 at a table with two files of pull request 1. The where clause the method builds
  is the comparison of \<open>pull_request_id\<close> alone, so the update for a.py also writes to the
  row of b.py, which matches the incoming row on \<open>pull_request_id\<close> only: its counts are
  overwritten, and so is its path, since the parameter dicts carry the fetched columns and
  those are set as well. Only the primary key of the row stays.
\<close>

theorem update_overwrites_sibling_file:
  "pull_request_files_model [file_row 1 ''a.py'' 5 5]
       [stored 1 (file_row 1 ''a.py'' 1 1), stored 2 (file_row 1 ''b.py'' 2 2)]
   = Inr [stored 1 (file_row 1 ''a.py'' 5 5), stored 2 (file_row 1 ''a.py'' 5 5)]"
  by (simp add: pull_request_files_model_def need_insertion_def need_updates_def
      merge_left_only_def merge_inner_def dropna_pull_request_id_def with_b_columns_def
      update_where_is_first_comparison update_one_def column_value_def param_value_def
      sql_int_def sql_text_def set_clause_columns assign_def
      file_row_def stored_def dupe_columns_def update_columns_def pr_file_row.defs)

section \<open>The GraphQL paginator\<close>

lemma script_record_action [simp]: "script (record_action a st) = script st"
  by (simp add: record_action_def)

lemma attempt_page:
  assumes "reads_page subj data c h es" and "script st = Response data # rest"
  shows "\<exists>page_info. attempt n subj bp st =
        Some (Break (Some (page_info, PList es)), n,
              record_action (UpdateRateLimit Plain) (record_action (Post bp) (st\<lparr>script := rest\<rparr>)))
      \<and> py_getitem page_info ''startCursor'' = Inr c
      \<and> py_getitem page_info ''hasPreviousPage'' = Inr h"
  using assms
  by (auto simp: reads_page_def attempt_def Let_def split: sum.splits)


lemma page_loop_stop: "\<not> truthy h \<Longrightarrow> page_loop subj bp h tuples st = Some (Inr (bp, tuples), st)"
  by (simp add: page_loop.simps)

lemma page_loop_page:
  assumes "reads_page subj data c h es" and "script st = Response data # rest" and "truthy hp"
  shows "page_loop subj bp hp tuples st =
     page_loop subj (AList.update subj (Before c) bp) h (tuples @ es)
       (record_action (UpdateRateLimit Plain) (record_action (Post bp) (st\<lparr>script := rest\<rparr>)))"
proof -
  from attempt_page[OF assms(1,2), of 3 bp] obtain page_info where
    "attempt 3 subj bp st = Some (Break (Some (page_info, PList es)), 3,
        record_action (UpdateRateLimit Plain) (record_action (Post bp) (st\<lparr>script := rest\<rparr>)))"
    "py_getitem page_info ''startCursor'' = Inr c"
    "py_getitem page_info ''hasPreviousPage'' = Inr h" by blast
  with assms(3) show ?thesis
    by (subst page_loop.simps) simp
qed

lemma reads_files_page:
  "reads_page ''files'' (files_page c h es) (PStr c) (PBool h) es"
  by (simp add: reads_page_def files_page_def find_root_of_subject_def getitem_def)


text \<open>
  Claim C6. Paginating one subject against an endpoint whose next three answers are pages
  of the subject reporting \<open>hasPreviousPage\<close> true, true and false, the method issues
  exactly three requests (the first without a cursor, the next two with the start cursor
  of the page before), leaves every later answer of the endpoint unrequested, and returns
  the edges of the three pages in the order fetched.
\<close>

theorem three_pages_three_requests:
  assumes "reads_page subj d1 c1 (PBool True) e1"
    and "reads_page subj d2 c2 (PBool True) e2"
    and "reads_page subj d3 c3 (PBool False) e3"
  shows "graphql_paginate (SDict [(subj, SNone)]) None
           \<lparr>script = Response d1 # Response d2 # Response d3 # rest, actions = []\<rparr>
       = Some (Inr (PList (e1 @ e2 @ e3)),
           \<lparr>script = rest,
            actions = [Post [(subj, NoBefore)], UpdateRateLimit Plain,
                       Post [(subj, Before c1)], UpdateRateLimit Plain,
                       Post [(subj, Before c2)], UpdateRateLimit Plain]\<rparr>)"
proof -
  let ?st0 = "\<lparr>script = Response d1 # Response d2 # Response d3 # rest, actions = []\<rparr>"
  have "page_loop subj [(subj, NoBefore)] (PBool True) [] ?st0
      = page_loop subj [(subj, Before c1)] (PBool True) e1
          \<lparr>script = Response d2 # Response d3 # rest,
           actions = [Post [(subj, NoBefore)], UpdateRateLimit Plain]\<rparr>"
    using page_loop_page[OF assms(1), of ?st0 _ "PBool True" "[(subj, NoBefore)]" "[]"]
    by (simp add: record_action_def)
  also have "\<dots> = page_loop subj [(subj, Before c2)] (PBool True) (e1 @ e2)
          \<lparr>script = Response d3 # rest,
           actions = [Post [(subj, NoBefore)], UpdateRateLimit Plain,
                      Post [(subj, Before c1)], UpdateRateLimit Plain]\<rparr>"
    using page_loop_page[OF assms(2), of "\<lparr>script = Response d2 # Response d3 # rest,
           actions = [Post [(subj, NoBefore)], UpdateRateLimit Plain]\<rparr>" _ "PBool True"
           "[(subj, Before c1)]" e1]
    by (simp add: record_action_def)
  also have "\<dots> = page_loop subj [(subj, Before c3)] (PBool False) (e1 @ e2 @ e3)
          \<lparr>script = rest,
           actions = [Post [(subj, NoBefore)], UpdateRateLimit Plain,
                      Post [(subj, Before c1)], UpdateRateLimit Plain,
                      Post [(subj, Before c2)], UpdateRateLimit Plain]\<rparr>"
    using page_loop_page[OF assms(3), of "\<lparr>script = Response d3 # rest,
           actions = [Post [(subj, NoBefore)], UpdateRateLimit Plain,
                      Post [(subj, Before c1)], UpdateRateLimit Plain]\<rparr>" _ "PBool True"
           "[(subj, Before c2)]" "e1 @ e2"]
    by (simp add: record_action_def)
  finally show ?thesis
    by (subst graphql_paginate.simps) (simp add: init_before_def page_loop_stop)
qed


theorem three_pages_three_requests_witness:
  "graphql_paginate (SDict [(''files'', SNone)]) None
     \<lparr>script = Response (files_page ''c1'' True [file_edge ''a.py'' 1 2])
               # Response (files_page ''c2'' True [file_edge ''b.py'' 3 4])
               # Response (files_page ''c3'' False [file_edge ''c.py'' 5 6])
               # [Response (files_page ''c4'' False [])],
      actions = []\<rparr>
   = Some (Inr (PList ([file_edge ''a.py'' 1 2] @ [file_edge ''b.py'' 3 4] @ [file_edge ''c.py'' 5 6])),
       \<lparr>script = [Response (files_page ''c4'' False [])],
        actions = [Post [(''files'', NoBefore)], UpdateRateLimit Plain,
                   Post [(''files'', Before (PStr ''c1''))], UpdateRateLimit Plain,
                   Post [(''files'', Before (PStr ''c2''))], UpdateRateLimit Plain]\<rparr>)"
  by (rule three_pages_three_requests[OF reads_files_page reads_files_page reads_files_page])









text \<open>
  Claim C5 at two sets of subjects. With \<open>files\<close> nested in \<open>pullRequests\<close>, the method
  paginates \<open>pullRequests\<close> and then looks the nested subjects up as
  \<open>data_subjects[subject]\<close>, where \<open>subject\<close> is the last subject of the first loop
  (\<open>files\<close>), not a key of \<open>data_subjects\<close>: it raises \<open>KeyError\<close> and never requests the
  files. With two subjects side by side, it returns after the first and never requests the
  second.
\<close>

theorem nested_subject_raises_KeyError:
  "graphql_paginate (SDict [(''pullRequests'', SDict [(''files'', SNone)])]) None
       \<lparr>script = [Response pulls_page, Response (files_page ''c'' False [])], actions = []\<rparr>
   = Some (Inl KeyError,
       \<lparr>script = [Response (files_page ''c'' False [])],
        actions = [Post [(''pullRequests'', NoBefore), (''files'', NoBefore)], UpdateRateLimit Plain]\<rparr>)"
  by (simp add: graphql_paginate.simps page_loop.simps init_before_def attempt_def pulls_page_def
      find_root_of_subject_def getitem_def record_action_def)

lemma sibling_subject_not_requested:
  "graphql_paginate (SDict [(''files'', SNone), (''commits'', SNone)]) None
       \<lparr>script = [Response (files_page ''c'' False [file_edge ''a.py'' 1 2]), Response pulls_page],
        actions = []\<rparr>
   = Some (Inr (PList [file_edge ''a.py'' 1 2]),
       \<lparr>script = [Response pulls_page],
        actions = [Post [(''files'', NoBefore), (''commits'', NoBefore)], UpdateRateLimit Plain]\<rparr>)"
  by (simp add: graphql_paginate.simps page_loop.simps init_before_def attempt_def files_page_def
      find_root_of_subject_def getitem_def record_action_def)

section \<open>Event rows and null actors\<close>





section \<open>Partial-failure isolation\<close>

lemma orchestrator_runs_all:
  assumes "get_pk_source_prs w db = (db0, Inr pk)" and "pk \<noteq> []"
  shows "fst (pull_requests_model w db) =
     (fst (pull_request_nested_data_model w pk
        (fst (pull_request_reviews_model w pk
          (fst (pull_request_events_model w pk
            (fst (pull_request_comments_model w pk db0))))))),
      [Comments, Events, Reviews, NestedData])"
  using assms
  by (simp add: pull_requests_model_def try_except_finally_def call_model_def no_finally_def
        split: prod.splits option.splits)

lemma nested_loop_stop: "nested_loop step 5 st = Some (st, None)"
  by (subst nested_loop.simps) simp

lemma nested_loop_step:
  assumes caught: "\<And>e. snd (step n s0) = Some e \<Longrightarrow> is_Exception e"
    and n: "n = 1 \<or> n = 2 \<or> n = 3 \<or> n = 4"
  shows "nested_loop step n (s0, tr) = nested_loop step (n + 1) (fst (step n s0), tr @ [n])"
proof (cases "step n s0")
  case (Pair s1 r)
  show ?thesis
  proof (cases r)
    case None
    with Pair n show ?thesis
      by (subst nested_loop.simps) (auto simp: run_step_def)
  next
    case (Some e)
    with Pair caught[of e] have "is_Exception e" by simp
    with Pair Some n show ?thesis
      by (subst nested_loop.simps) (auto simp: run_step_def)
  qed
qed

lemma nested_steps_run_once:
  assumes "\<And>n s e. snd (step n s) = Some e \<Longrightarrow> is_Exception e"
  shows "pr_nested_steps step s =
     Some ((fst (step 4 (fst (step 3 (fst (step 2 (fst (step 1 s))))))), [1, 2, 3, 4]), None)"
proof -
  have "nested_loop step 1 (s, []) = nested_loop step 2 (fst (step 1 s), [1])"
    using nested_loop_step[of step 1 s "[]"] assms by simp
  also have "\<dots> = nested_loop step 3 (fst (step 2 (fst (step 1 s))), [1, 2])"
    using nested_loop_step[of step 2 "fst (step 1 s)" "[1]"] assms by simp
  also have "\<dots> = nested_loop step 4 (fst (step 3 (fst (step 2 (fst (step 1 s))))), [1, 2, 3])"
    using nested_loop_step[of step 3 "fst (step 2 (fst (step 1 s)))" "[1, 2]"] assms by simp
  also have "\<dots> = nested_loop step 5
      (fst (step 4 (fst (step 3 (fst (step 2 (fst (step 1 s))))))), [1, 2, 3, 4])"
    using nested_loop_step[of step 4 "fst (step 3 (fst (step 2 (fst (step 1 s)))))" "[1, 2, 3]"] assms
    by simp
  finally show ?thesis
    unfolding pr_nested_steps_def by (simp only: nested_loop_stop)
qed

text \<open>
  Claim C9. Once \<open>_get_pk_source_prs\<close> has returned a non-empty batch, \<open>pull_requests_model\<close>
  enters the comments, events, reviews and nested-data sub-models, each once and in this
  order, whatever any of them raises: in particular when the reviews sub-model raises, the
  other three still run on the same batch, and the store is the one the four leave behind in
  turn. Within the nested-data model, as long as what a step raises is an \<open>Exception\<close>
  (which the loop's \<open>except Exception\<close> catches), the loop returns after having run the
  labels, reviewers, assignees and meta steps exactly once each, in order.
\<close>

theorem partial_failure_isolation:
  assumes "get_pk_source_prs w db = (db0, Inr pk)" and "pk \<noteq> []"
    and "pull_request_reviews_model w pk
           (fst (pull_request_events_model w pk (fst (pull_request_comments_model w pk db0))))
         = (db3, Some e)"
    and "\<forall>n s x. snd (step n s) = Some x \<longrightarrow> is_Exception x"
  shows "fst (pull_requests_model w db) =
           (fst (pull_request_nested_data_model w pk db3), [Comments, Events, Reviews, NestedData])
       \<and> pr_nested_steps step s =
           Some ((fst (step 4 (fst (step 3 (fst (step 2 (fst (step 1 s))))))), [1, 2, 3, 4]), None)"
proof
  show "fst (pull_requests_model w db) =
      (fst (pull_request_nested_data_model w pk db3), [Comments, Events, Reviews, NestedData])"
    using orchestrator_runs_all[OF assms(1,2)] assms(3) by simp
  show "pr_nested_steps step s =
      Some ((fst (step 4 (fst (step 3 (fst (step 2 (fst (step 1 s))))))), [1, 2, 3, 4]), None)"
    using assms(4) by (intro nested_steps_run_once) blast
qed

theorem partial_failure_isolation_witness:
  "fst (pull_requests_model demo_worker []) =
     ([''message'', ''pull_request_events'', ''pull_request_labels''],
      [Comments, Events, Reviews, NestedData])
   \<and> pr_nested_steps demo_step [] =
     Some (([''pull_request_labels'', ''pull_request_assignees'', ''pull_request_meta''],
            [1, 2, 3, 4]), None)"
proof -
  have caught: "\<forall>n s x. snd (demo_step n s) = Some x \<longrightarrow> is_Exception x"
    by (auto simp: demo_step_def split: if_splits)
  show ?thesis
    using partial_failure_isolation[of demo_worker "[]" "[]" "[1, 2]"
        "[''message'', ''pull_request_events'']" "OtherException ''reviews fetch failed''"
        demo_step "[]", OF _ _ _ caught]
    by (simp add: demo_worker_def demo_step_def)
qed

section \<open>The bare name \<open>is_nan\<close> in the row builders\<close>

lemma is_nan_unbound_pr: "\<not> name_bound ''is_nan'' pr_row_scopes"
  by (simp add: pr_row_scopes_def class_body_def module_globals_def builtins_def)

lemma is_nan_unbound_comment: "\<not> name_bound ''is_nan'' comment_row_scopes"
  by (simp add: comment_row_scopes_def class_body_def module_globals_def builtins_def)

lemma is_nan_unbound_event: "\<not> name_bound ''is_nan'' event_row_scopes"
  by (simp add: event_row_scopes_def class_body_def module_globals_def builtins_def)

lemma eval_dict_no_NameError:
  "(\<forall>(k, r) \<in> set es. r \<noteq> Inl NameError) \<Longrightarrow> eval_dict es \<noteq> Inl NameError"
  by (induction es rule: eval_dict.induct) (auto split: sum.splits)

lemma getitem_not_NameError: "getitem d k \<noteq> Inl NameError"
  by (simp add: getitem_def split: option.splits)

lemma py_getitem_not_NameError: "py_getitem v k \<noteq> Inl NameError"
  by (cases v) (simp_all add: getitem_not_NameError)

lemma field_or_not_NameError:
  "(\<And>v. f v \<noteq> Inl NameError) \<Longrightarrow> field_or d k f dflt \<noteq> Inl NameError"
  by (simp add: field_or_def bind_exc_def getitem_def split: option.splits)

lemma int_of_string_not_NameError: "int_of_string s \<noteq> Inl NameError"
  by (simp add: int_of_string_def Let_def split: prod.splits option.splits)

lemma py_int_not_NameError: "py_int v \<noteq> Inl NameError"
proof (cases v)
  case (PFloat f)
  then show ?thesis by (cases f) simp_all
qed (simp_all add: int_of_string_not_NameError)

lemma int_field_not_NameError: "int_field d k \<noteq> Inl NameError"
  using py_int_not_NameError
  by (auto simp: int_field_def bind_exc_def getitem_def split: option.splits sum.splits)

lemma pr_row_falsy:
  assumes keys: "\<forall>k \<in> set [''url'', ''id'', ''node_id'', ''html_url'', ''diff_url'', ''patch_url'',
        ''issue_url'', ''number'', ''state'', ''locked'', ''title'']. map_of pr k \<noteq> None"
    and c: "map_of pr ''cntrb_id'' = Some c" and f: "\<not> truthy c"
  shows "pr_insert_row w clean pr = Inl NameError"
proof -
  from keys obtain v1 v2 v3 v4 v5 v6 v7 v8 v9 v10 v11 where
    "getitem pr ''url'' = Inr v1" "getitem pr ''id'' = Inr v2" "getitem pr ''node_id'' = Inr v3"
    "getitem pr ''html_url'' = Inr v4" "getitem pr ''diff_url'' = Inr v5"
    "getitem pr ''patch_url'' = Inr v6" "getitem pr ''issue_url'' = Inr v7"
    "getitem pr ''number'' = Inr v8" "getitem pr ''state'' = Inr v9"
    "getitem pr ''locked'' = Inr v10" "getitem pr ''title'' = Inr v11"
    by (auto simp: getitem_def)
  moreover have "bind_exc (getitem pr ''cntrb_id'') (cntrb_id_or_is_nan pr_row_scopes) = Inl NameError"
    using c f is_nan_unbound_pr by (simp add: getitem_def bind_exc_def cntrb_id_or_is_nan_def)
  ultimately show ?thesis
    by (simp add: pr_insert_row_def field_or_def bind_exc_def)
qed

lemma comment_row_falsy:
  assumes keys: "\<forall>k \<in> set [''body'', ''created_at'']. map_of comment k \<noteq> None"
    and c: "map_of comment ''cntrb_id'' = Some c" and f: "\<not> truthy c"
  shows "comment_insert_row w clean comment = Inl NameError"
proof -
  from keys obtain v1 v2 where
    "getitem comment ''body'' = Inr v1" "getitem comment ''created_at'' = Inr v2"
    by (auto simp: getitem_def)
  moreover have "bind_exc (getitem comment ''cntrb_id'') (cntrb_id_or_is_nan comment_row_scopes) = Inl NameError"
    using c f is_nan_unbound_comment by (simp add: getitem_def bind_exc_def cntrb_id_or_is_nan_def)
  ultimately show ?thesis
    by (simp add: comment_insert_row_def field_or_def bind_exc_def)
qed

lemma pr_row_truthy:
  assumes c: "map_of pr ''cntrb_id'' = Some c" and t: "truthy c"
  shows "pr_insert_row w clean pr \<noteq> Inl NameError"
  unfolding pr_insert_row_def
  apply (rule eval_dict_no_NameError)
  using c t
  apply (simp add: getitem_not_NameError field_or_not_NameError py_getitem_not_NameError)
  apply (simp add: getitem_def bind_exc_def cntrb_id_or_is_nan_def)
  done

lemma comment_row_truthy:
  assumes c: "map_of comment ''cntrb_id'' = Some c" and t: "truthy c"
  shows "comment_insert_row w clean comment \<noteq> Inl NameError"
  unfolding comment_insert_row_def
  apply (rule eval_dict_no_NameError)
  using c t
  apply (simp add: getitem_not_NameError field_or_not_NameError int_field_not_NameError)
  apply (simp add: getitem_def bind_exc_def cntrb_id_or_is_nan_def)
  done

text \<open>
  Claim C10, amended. Take a pull-request record and a comment record that carry the fields
  their row builders read before the contributor id. Building the insert row raises
  \<open>NameError\<close> exactly when the record's \<open>cntrb_id\<close> is false in a boolean context (\<open>None\<close>,
  zero, \<open>False\<close>, an empty string or container): the expression then calls the bare name
  \<open>is_nan\<close>, which only the class body binds and no scope of the builder sees. A true
  \<open>cntrb_id\<close>, NaN included, is copied into the row and no \<open>NameError\<close> is raised.
\<close>

theorem falsy_cntrb_id_raises_NameError:
  assumes "\<forall>k \<in> set [''url'', ''id'', ''node_id'', ''html_url'', ''diff_url'', ''patch_url'',
        ''issue_url'', ''number'', ''state'', ''locked'', ''title'']. map_of pr k \<noteq> None"
    and "map_of pr ''cntrb_id'' = Some c"
    and "\<forall>k \<in> set [''body'', ''created_at'']. map_of comment k \<noteq> None"
    and "map_of comment ''cntrb_id'' = Some c'"
  shows "(pr_insert_row w clean pr = Inl NameError) = (\<not> truthy c)
       \<and> (comment_insert_row w clean comment = Inl NameError) = (\<not> truthy c')"
  using pr_row_falsy[OF assms(1,2)] pr_row_truthy[OF assms(2)]
    comment_row_falsy[OF assms(3,4)] comment_row_truthy[OF assms(4)]
  by blast

theorem falsy_cntrb_id_raises_NameError_witness:
  "pr_insert_row demo_fields demo_clean (demo_pr PNone) = Inl NameError
   \<and> comment_insert_row demo_fields demo_clean (demo_comment (PInt 0)) = Inl NameError"
  using falsy_cntrb_id_raises_NameError[of "demo_pr PNone" PNone "demo_comment (PInt 0)" "PInt 0"
      demo_fields demo_clean]
  by (simp add: demo_pr_def demo_comment_def)

text \<open>
  The claim as written fails at NaN: a pull-request record whose \<open>cntrb_id\<close> is NaN gets a
  row, with NaN as its contributor id.
\<close>

theorem nan_cntrb_id_counterexample:
  "bind_exc (pr_insert_row demo_fields demo_clean (demo_pr (PFloat NaN)))
     (\<lambda>row. getitem row ''pr_augur_contributor_id'') = Inr (PFloat NaN)
   \<and> pr_insert_row demo_fields demo_clean (demo_pr (PFloat NaN)) \<noteq> Inl NameError"
  by (simp add: pr_insert_row_def demo_pr_def demo_fields_def demo_clean_def field_or_def
      bind_exc_def getitem_def cntrb_id_or_is_nan_def)

end
